theory Spec2Isabelle
  imports Complex_Main
begin

section \<open>JavaScript numbers\<close>

text \<open>
  The service computes with the TypeScript type \<open>number\<close>. A value of that type is a
  finite number, one of the two infinities, or NaN. Finite values are modelled as
  reals: the rounding and the overflow of a product or difference of two finite values
  are not modelled, and the negative zero is identified with zero (JavaScript's
  \<open>===\<close> does the same). The special values follow IEEE 754.
\<close>

datatype number = Fin real | PosInfinity | NegInfinity | NaN

fun sign_of :: "number \<Rightarrow> real" where
  "sign_of (Fin a) = sgn a"
| "sign_of PosInfinity = 1"
| "sign_of NegInfinity = - 1"
| "sign_of NaN = 0"

text \<open>The operator \<open>*\<close> on numbers.\<close>

fun js_mul :: "number \<Rightarrow> number \<Rightarrow> number" where
  "js_mul (Fin a) (Fin b) = Fin (a * b)"
| "js_mul NaN y = NaN"
| "js_mul x NaN = NaN"
| "js_mul x y =
     (let s = sign_of x * sign_of y
      in if s = 0 then NaN else if 0 < s then PosInfinity else NegInfinity)"

text \<open>The operator \<open>-\<close> on numbers.\<close>

fun js_sub :: "number \<Rightarrow> number \<Rightarrow> number" where
  "js_sub (Fin a) (Fin b) = Fin (a - b)"
| "js_sub NaN y = NaN"
| "js_sub x NaN = NaN"
| "js_sub PosInfinity PosInfinity = NaN"
| "js_sub NegInfinity NegInfinity = NaN"
| "js_sub PosInfinity y = PosInfinity"
| "js_sub NegInfinity y = NegInfinity"
| "js_sub (Fin a) PosInfinity = NegInfinity"
| "js_sub (Fin a) NegInfinity = PosInfinity"

text \<open>The operator \<open><\<close> on numbers: every comparison with NaN is false.\<close>

fun js_lt :: "number \<Rightarrow> number \<Rightarrow> bool" where
  "js_lt (Fin a) (Fin b) = (a < b)"
| "js_lt NaN y = False"
| "js_lt x NaN = False"
| "js_lt PosInfinity y = False"
| "js_lt x NegInfinity = False"
| "js_lt NegInfinity y = True"
| "js_lt (Fin a) PosInfinity = True"

text \<open>A number is falsy when it is zero or NaN.\<close>

definition truthy_number :: "number \<Rightarrow> bool" where
  "truthy_number n = (n \<noteq> Fin 0 \<and> n \<noteq> NaN)"

section \<open>Data model\<close>

text \<open>
  \<open>interface ExchangeRates { [currency: string]: number }\<close>: a table from currency code
  to rate, the own properties of the object.
\<close>

type_synonym ExchangeRates = "string \<Rightarrow> number option"

text \<open>
  A rate table is a plain object (it comes out of \<open>JSON.parse\<close> or \<open>response.json()\<close>), so
  reading a name that is not an own property finds the members every object inherits
  from \<open>Object.prototype\<close>. These are their names.
\<close>

definition Object_prototype :: "string list" where
  "Object_prototype =
     [''constructor'', ''hasOwnProperty'', ''isPrototypeOf'', ''propertyIsEnumerable'',
      ''toLocaleString'', ''toString'', ''valueOf'', ''__proto__'',
      ''__defineGetter__'', ''__defineSetter__'', ''__lookupGetter__'',
      ''__lookupSetter__'']"

text \<open>
  What \<open>rates[code]\<close> evaluates to: \<open>undefined\<close>, a number, or an inherited member (a
  function, or for \<open>__proto__\<close> the prototype object).
\<close>

datatype property = Undefined | Number number | Inherited

definition get_rate :: "ExchangeRates \<Rightarrow> string \<Rightarrow> property" where
  "get_rate rs code =
     (case rs code of
        Some r \<Rightarrow> Number r
      | None \<Rightarrow> if code \<in> set Object_prototype then Inherited else Undefined)"

text \<open>
  \<open>interface CurrencyData\<close>. The service builds a snapshot from a response body without
  looking at its shape, so \<open>rates\<close> and \<open>base\<close> are \<open>undefined\<close> (\<open>None\<close>) in a snapshot
  built from a body that lacks them. A field that is present is taken to have the type
  the interface declares.
\<close>

record CurrencyData =
  rates :: "ExchangeRates option"
  base :: "string option"
  timestamp :: number

definition CACHE_KEY :: string where
  "CACHE_KEY = ''currency_rates_cache''"

definition FAVORITES_KEY :: string where
  "FAVORITES_KEY = ''favorite_currencies''"

definition BASE_CURRENCY_KEY :: string where
  "BASE_CURRENCY_KEY = ''base_currency''"

definition CACHE_DURATION :: number where
  "CACHE_DURATION = Fin (6 * 60 * 60 * 1000)"

section \<open>Conversion\<close>

text \<open>\<open>undefined\<close> is falsy, a function or an object is truthy.\<close>

fun truthy :: "property \<Rightarrow> bool" where
  "truthy Undefined = False"
| "truthy (Number n) = truthy_number n"
| "truthy Inherited = True"

text \<open>
  The conversion to a number that \<open>*\<close> applies to an operand: \<open>undefined\<close>, a function
  and the prototype object all convert to NaN.
\<close>

fun to_number :: "property \<Rightarrow> number" where
  "to_number Undefined = NaN"
| "to_number (Number n) = n"
| "to_number Inherited = NaN"

text \<open>\<open>rates[toCurrency] || 0\<close>: the value read when it is truthy, otherwise 0.\<close>

definition rate_or_zero :: "ExchangeRates \<Rightarrow> string \<Rightarrow> property" where
  "rate_or_zero rs code =
     (let rate = get_rate rs code in if truthy rate then rate else Number (Fin 0))"

definition convertCurrency :: "number \<Rightarrow> string \<Rightarrow> string \<Rightarrow> ExchangeRates \<Rightarrow> number" where
  "convertCurrency amount fromCurrency toCurrency rs =
     (if fromCurrency = toCurrency then amount
      else js_mul amount (to_number (rate_or_zero rs toCurrency)))"

section \<open>The environment of the service\<close>

text \<open>
  The service is asynchronous code over three collaborators: the key-value store
  \<open>AsyncStorage\<close>, the HTTP client \<open>fetch\<close> and the clock \<open>Date.now\<close>. A call runs
  from a world to a result and a new world. The result is a sum: \<open>Inl\<close> for a rejected
  promise or a thrown exception, \<open>Inr\<close> for the value.
\<close>

datatype error =
    StorageFault
  | FetchFault
  | SyntaxError
  | TypeError
  | ApiError nat
  | Error string

text \<open>
  \<open>StorageFault\<close>, \<open>FetchFault\<close> and \<open>SyntaxError\<close> are what the store, the HTTP client
  and the JSON decoder throw, \<open>TypeError\<close> what reading a property of \<open>null\<close> throws.
  \<open>ApiError status\<close> is the service's own \<open>new Error(`API Error: ${response.status}`)\<close>,
  and \<open>Error message\<close> a \<open>new Error(message)\<close>.
\<close>

text \<open>
  The value that \<open>response.json()\<close> resolves to, as far as the service looks at it. It
  reads \<open>data.rates\<close> and \<open>data.base\<close> and nothing else: on \<open>null\<close> the read throws; on
  every other value it gives the property, or \<open>undefined\<close> (\<open>None\<close>) when the value has
  none of that name, as the body \<open>{}\<close> has neither.
\<close>

datatype payload = Null | Value "ExchangeRates option" "string option"

datatype response = Response (status: nat) (json: "error + payload")

text \<open>\<open>response.ok\<close> is true for a status from 200 to 299.\<close>

definition ok :: "response \<Rightarrow> bool" where
  "ok r = (200 \<le> status r \<and> status r \<le> 299)"

text \<open>
  The world. \<open>items\<close> is the content of the store. \<open>writes\<close> lists the calls of
  \<open>setItem\<close> and \<open>fetches\<close> the URLs requested, both in order. \<open>tick\<close> counts the calls
  to the store and to the network made so far. The other fields describe the
  environment at each tick: whether a read or a write of a key is rejected, what a
  request to a URL results in, and what the clock shows.
\<close>

record world =
  items :: "string \<Rightarrow> string option"
  writes :: "(string \<times> string) list"
  fetches :: "string list"
  tick :: nat
  getItem_rejects :: "nat \<Rightarrow> string \<Rightarrow> bool"
  setItem_rejects :: "nat \<Rightarrow> string \<Rightarrow> bool"
  fetch_outcome :: "nat \<Rightarrow> string \<Rightarrow> error + response"
  clock :: "nat \<Rightarrow> number"

type_synonym 'a promise = "world \<Rightarrow> (error + 'a) \<times> world"

definition resolve :: "'a \<Rightarrow> 'a promise" where
  "resolve v w = (Inr v, w)"

definition reject :: "error \<Rightarrow> 'a promise" where
  "reject e w = (Inl e, w)"

text \<open>\<open>settled r\<close> is the promise that is already resolved or rejected as \<open>r\<close> says.\<close>

definition settled :: "error + 'a \<Rightarrow> 'a promise" where
  "settled r w = (r, w)"

text \<open>\<open>const v = await p; k v\<close>: a rejection of \<open>p\<close> is thrown on.\<close>

definition await :: "'a promise \<Rightarrow> ('a \<Rightarrow> 'b promise) \<Rightarrow> 'b promise" where
  "await p k w =
     (case p w of
        (Inl e, w') \<Rightarrow> (Inl e, w')
      | (Inr v, w') \<Rightarrow> k v w')"

text \<open>\<open>try { body } catch (error) { handler }\<close>.\<close>

definition try_catch :: "'a promise \<Rightarrow> (error \<Rightarrow> 'a promise) \<Rightarrow> 'a promise" where
  "try_catch body handler w =
     (case body w of
        (Inl e, w') \<Rightarrow> handler e w'
      | (Inr v, w') \<Rightarrow> (Inr v, w'))"

definition AsyncStorage_getItem :: "string \<Rightarrow> (string option) promise" where
  "AsyncStorage_getItem key w =
     (if getItem_rejects w (tick w) key then Inl StorageFault else Inr (items w key),
      w\<lparr>tick := Suc (tick w)\<rparr>)"

text \<open>A rejected write leaves the content of the store as it was.\<close>

definition AsyncStorage_setItem :: "string \<Rightarrow> string \<Rightarrow> unit promise" where
  "AsyncStorage_setItem key v w =
     (if setItem_rejects w (tick w) key
      then (Inl StorageFault,
            w\<lparr>writes := writes w @ [(key, v)], tick := Suc (tick w)\<rparr>)
      else (Inr (),
            w\<lparr>items := (items w)(key \<mapsto> v), writes := writes w @ [(key, v)],
              tick := Suc (tick w)\<rparr>))"

definition fetch :: "string \<Rightarrow> response promise" where
  "fetch url w =
     (fetch_outcome w (tick w) url,
      w\<lparr>fetches := fetches w @ [url], tick := Suc (tick w)\<rparr>)"

definition Date_now :: "number promise" where
  "Date_now w = (Inr (clock w (tick w)), w)"

text \<open>
  \<open>JSON.parse\<close> and \<open>JSON.stringify\<close> belong to the language runtime. They are
  parameters of the model, one pair for each of the two types the service stores as
  JSON. \<open>JSON.parse\<close> throws on a text that is not JSON; the text \<open>null\<close> decodes to
  \<open>null\<close>, here \<open>None\<close>. A stored text is taken to decode to a value of the type the
  source declares for it, or not at all.
\<close>

record JSON =
  parse_CurrencyData :: "string \<Rightarrow> error + CurrencyData option"
  stringify_CurrencyData :: "CurrencyData \<Rightarrow> string"
  parse_strings :: "string \<Rightarrow> error + string list"
  stringify_strings :: "string list \<Rightarrow> string"

section \<open>The rate cache\<close>

definition baseUrl :: string where
  "baseUrl = ''https://api.exchangerate-api.com/v4/latest''"

text \<open>
  Every operation below takes the JSON runtime as its first argument. The calls of
  \<open>console.error\<close> in the \<open>catch\<close> blocks change neither a result nor the store and
  are left out. \<open>getExchangeRates\<close> takes its base currency as an argument; the
  default \<open>USD\<close> of the source is the call with that argument.
\<close>

text \<open>The key \<open>`${CACHE_KEY}_${baseCurrency}`\<close>.\<close>

definition cache_key :: "string \<Rightarrow> string" where
  "cache_key baseCurrency = CACHE_KEY @ ''_'' @ baseCurrency"

text \<open>\<open>cached ? JSON.parse(cached) : null\<close>: the empty text is falsy, as \<open>null\<close> is.\<close>

definition getCachedRates :: "JSON \<Rightarrow> string \<Rightarrow> (CurrencyData option) promise" where
  "getCachedRates J baseCurrency =
     try_catch
       (await (AsyncStorage_getItem (cache_key baseCurrency)) (\<lambda>cached.
          case cached of
            None \<Rightarrow> resolve None
          | Some text \<Rightarrow>
              if text = [] then resolve None
              else settled (parse_CurrencyData J text)))
       (\<lambda>error. resolve None)"

definition cacheRates :: "JSON \<Rightarrow> string \<Rightarrow> CurrencyData \<Rightarrow> unit promise" where
  "cacheRates J baseCurrency data =
     try_catch
       (AsyncStorage_setItem (cache_key baseCurrency) (stringify_CurrencyData J data))
       (\<lambda>error. resolve ())"

definition isCacheValid :: "number \<Rightarrow> bool promise" where
  "isCacheValid ts =
     await Date_now (\<lambda>now. resolve (js_lt (js_sub now ts) CACHE_DURATION))"

text \<open>
  The network step of \<open>getExchangeRates\<close>: the statements of its \<open>try\<close> block after the
  cache test, from the request to the return of the new snapshot.
\<close>

definition getExchangeRates_network :: "JSON \<Rightarrow> string \<Rightarrow> CurrencyData promise" where
  "getExchangeRates_network J baseCurrency =
     await (fetch (baseUrl @ ''/'' @ baseCurrency)) (\<lambda>response.
       if \<not> ok response then reject (ApiError (status response))
       else
         await (settled (json response)) (\<lambda>data.
           case data of
             Null \<Rightarrow> reject TypeError
           | Value data_rates data_base \<Rightarrow>
               await Date_now (\<lambda>now.
                 let currencyData =
                       \<lparr>rates = data_rates, base = data_base, timestamp = now\<rparr>
                 in await (cacheRates J baseCurrency currencyData) (\<lambda>_.
                    resolve currencyData))))"

definition getExchangeRates :: "JSON \<Rightarrow> string \<Rightarrow> CurrencyData promise" where
  "getExchangeRates J baseCurrency =
     try_catch
       (await (getCachedRates J baseCurrency) (\<lambda>cachedData.
          case cachedData of
            None \<Rightarrow> getExchangeRates_network J baseCurrency
          | Some cachedEntry \<Rightarrow>
              await (isCacheValid (timestamp cachedEntry)) (\<lambda>valid.
                if valid then resolve cachedEntry
                else getExchangeRates_network J baseCurrency)))
       (\<lambda>error.
          await (getCachedRates J baseCurrency) (\<lambda>cachedData.
            case cachedData of
              Some cachedEntry \<Rightarrow> resolve cachedEntry
            | None \<Rightarrow>
                reject (Error
                  ''Unable to fetch exchange rates. Please check your internet connection.'')))"

section \<open>Favorites\<close>

text \<open>\<open>favorites ? JSON.parse(favorites) : []\<close>.\<close>

definition getFavoriteCurrencies :: "JSON \<Rightarrow> (string list) promise" where
  "getFavoriteCurrencies J =
     try_catch
       (await (AsyncStorage_getItem FAVORITES_KEY) (\<lambda>favorites.
          case favorites of
            None \<Rightarrow> resolve []
          | Some text \<Rightarrow>
              if text = [] then resolve []
              else settled (parse_strings J text)))
       (\<lambda>error. resolve [])"

definition setFavoriteCurrencies :: "JSON \<Rightarrow> string list \<Rightarrow> unit promise" where
  "setFavoriteCurrencies J favorites =
     try_catch
       (AsyncStorage_setItem FAVORITES_KEY (stringify_strings J favorites))
       (\<lambda>error. resolve ())"

text \<open>\<open>favorites.push(currency)\<close> appends to the array that was just read.\<close>

definition addFavoriteCurrency :: "JSON \<Rightarrow> string \<Rightarrow> unit promise" where
  "addFavoriteCurrency J currency =
     await (getFavoriteCurrencies J) (\<lambda>favorites.
       if currency \<notin> set favorites
       then setFavoriteCurrencies J (favorites @ [currency])
       else resolve ())"

definition removeFavoriteCurrency :: "JSON \<Rightarrow> string \<Rightarrow> unit promise" where
  "removeFavoriteCurrency J currency =
     await (getFavoriteCurrencies J) (\<lambda>favorites.
       let updatedFavorites = filter (\<lambda>fav. fav \<noteq> currency) favorites
       in setFavoriteCurrencies J updatedFavorites)"

definition toggleFavoriteCurrency :: "JSON \<Rightarrow> string \<Rightarrow> bool promise" where
  "toggleFavoriteCurrency J currency =
     await (getFavoriteCurrencies J) (\<lambda>favorites.
       if currency \<in> set favorites
       then await (removeFavoriteCurrency J currency) (\<lambda>_. resolve False)
       else await (addFavoriteCurrency J currency) (\<lambda>_. resolve True))"

section \<open>Base currency\<close>

text \<open>\<open>baseCurrency || "USD"\<close>: \<open>null\<close> and the empty text are falsy.\<close>

definition getBaseCurrency :: "string promise" where
  "getBaseCurrency =
     try_catch
       (await (AsyncStorage_getItem BASE_CURRENCY_KEY) (\<lambda>baseCurrency.
          let result = (case baseCurrency of
                          None \<Rightarrow> ''USD''
                        | Some text \<Rightarrow> if text = [] then ''USD'' else text)
          in resolve result))
       (\<lambda>error. resolve ''USD'')"

definition setBaseCurrency :: "string \<Rightarrow> unit promise" where
  "setBaseCurrency currency =
     try_catch
       (AsyncStorage_setItem BASE_CURRENCY_KEY currency)
       (\<lambda>error. resolve ())"

section \<open>Conditions on the environment\<close>

text \<open>
  The outcomes of a request on which the network step throws: the request itself is
  rejected, the status is not a success status, the body is not JSON, or the body is
  the JSON text \<open>null\<close>. On every other outcome the step goes through, whatever the
  shape of the body.
\<close>

definition network_step_fails :: "error + response \<Rightarrow> bool" where
  "network_step_fails outcome =
     (case outcome of
        Inl e \<Rightarrow> True
      | Inr response \<Rightarrow>
          \<not> ok response \<or> isl (json response) \<or> json response = Inr Null)"

text \<open>
  The contract of \<open>JSON.stringify\<close> and \<open>JSON.parse\<close> at one array of strings: the
  text written is not empty and decodes to the same array.
\<close>

definition strings_roundtrip :: "JSON \<Rightarrow> string list \<Rightarrow> bool" where
  "strings_roundtrip J l =
     (stringify_strings J l \<noteq> [] \<and> parse_strings J (stringify_strings J l) = Inr l)"

text \<open>
  The codes present before and after an operation stand in the same order in both
  sequences.
\<close>

definition kept_in_order :: "string list \<Rightarrow> string list \<Rightarrow> bool" where
  "kept_in_order before after =
     (filter (\<lambda>code. code \<in> set before) after = filter (\<lambda>code. code \<in> set after) before)"

section \<open>Example data\<close>

text \<open>
  A JSON runtime restricted to the texts the examples use: arrays of plain currency
  codes, rendered as \<open>JSON.stringify\<close> renders them, and one rate snapshot. Every other
  text is rejected as \<open>JSON.parse\<close> rejects a text that is not JSON.
\<close>

definition quoted :: "string \<Rightarrow> string" where
  "quoted s = CHR 0x22 # s @ [CHR 0x22]"

fun comma_separated :: "string list \<Rightarrow> string" where
  "comma_separated [] = []"
| "comma_separated [s] = s"
| "comma_separated (s # t # ts) = s @ '','' @ comma_separated (t # ts)"

definition example_stringify_strings :: "string list \<Rightarrow> string" where
  "example_stringify_strings l = ''['' @ comma_separated (map quoted l) @ '']''"

definition example_lists :: "string list list" where
  "example_lists =
     [[], [''USD''], [''EUR''], [''USD'', ''EUR''], [''EUR'', ''USD''], [''USD'', ''USD'']]"

definition example_parse_strings :: "string \<Rightarrow> error + string list" where
  "example_parse_strings text =
     (case find (\<lambda>l. example_stringify_strings l = text) example_lists of
        Some l \<Rightarrow> Inr l
      | None \<Rightarrow> Inl SyntaxError)"

definition example_rates :: ExchangeRates where
  "example_rates = [''EUR'' \<mapsto> Fin 0.9, ''JPY'' \<mapsto> Fin 150]"

definition example_snapshot :: CurrencyData where
  "example_snapshot =
     \<lparr>rates = Some example_rates, base = Some ''USD'', timestamp = Fin 1700000000000\<rparr>"

definition example_snapshot_text :: string where
  "example_snapshot_text =
     ''{'' @ quoted ''rates'' @ '':{'' @ quoted ''EUR'' @ '':0.9,'' @ quoted ''JPY'' @
     '':150},'' @ quoted ''base'' @ '':'' @ quoted ''USD'' @ '','' @ quoted ''timestamp'' @
     '':1700000000000}''"

text \<open>
  The snapshot built, a day later, from a body that has neither \<open>rates\<close> nor \<open>base\<close>.
  \<open>JSON.stringify\<close> leaves out the fields that are \<open>undefined\<close>.
\<close>

definition bare_snapshot :: CurrencyData where
  "bare_snapshot = \<lparr>rates = None, base = None, timestamp = Fin 1700086400000\<rparr>"

definition bare_snapshot_text :: string where
  "bare_snapshot_text = ''{'' @ quoted ''timestamp'' @ '':1700086400000}''"

definition example_JSON :: JSON where
  "example_JSON =
     \<lparr>parse_CurrencyData =
        (\<lambda>text. if text = example_snapshot_text then Inr (Some example_snapshot)
                else if text = bare_snapshot_text then Inr (Some bare_snapshot)
                else if text = ''null'' then Inr None
                else Inl SyntaxError),
      stringify_CurrencyData =
        (\<lambda>data. if rates data = None then bare_snapshot_text else example_snapshot_text),
      parse_strings = example_parse_strings,
      stringify_strings = example_stringify_strings\<rparr>"

text \<open>
  A world with an empty store that accepts every read and write, no network, and the
  clock one hour after the example snapshot was taken.
\<close>

definition calm_world :: world where
  "calm_world =
     \<lparr>items = Map.empty, writes = [], fetches = [], tick = 0,
      getItem_rejects = (\<lambda>n key. False), setItem_rejects = (\<lambda>n key. False),
      fetch_outcome = (\<lambda>n url. Inl FetchFault),
      clock = (\<lambda>n. Fin 1700003600000)\<rparr>"

text \<open>The same world with the example snapshot cached for \<open>USD\<close>.\<close>

definition fresh_cache_world :: world where
  "fresh_cache_world =
     calm_world\<lparr>items := [cache_key ''USD'' \<mapsto> example_snapshot_text]\<rparr>"

text \<open>
  A day after the snapshot was taken, with a server that answers 503 and a body that
  is not JSON.
\<close>

definition stale_cache_world :: world where
  "stale_cache_world =
     fresh_cache_world
       \<lparr>fetch_outcome := (\<lambda>n url. Inr (Response 503 (Inl SyntaxError))),
        clock := (\<lambda>n. Fin 1700086400000)\<rparr>"

text \<open>The same, with a server that answers 200 and a body that is not JSON.\<close>

definition bad_body_world :: world where
  "bad_body_world =
     stale_cache_world\<lparr>fetch_outcome := (\<lambda>n url. Inr (Response 200 (Inl SyntaxError)))\<rparr>"

text \<open>The same, with a server that answers 200 and the body \<open>null\<close>.\<close>

definition null_body_world :: world where
  "null_body_world =
     stale_cache_world\<lparr>fetch_outcome := (\<lambda>n url. Inr (Response 200 (Inr Null)))\<rparr>"

text \<open>The same, with a server that answers 200 and the body \<open>{}\<close>.\<close>

definition wrong_shape_world :: world where
  "wrong_shape_world =
     stale_cache_world\<lparr>fetch_outcome := (\<lambda>n url. Inr (Response 200 (Inr (Value None None))))\<rparr>"

text \<open>
  The stale cache and the failing server again, with a store that rejects the third
  call made to it or to the network and no other.
\<close>

definition flaky_store_world :: world where
  "flaky_store_world = stale_cache_world\<lparr>getItem_rejects := (\<lambda>n key. n = 2)\<rparr>"

text \<open>A store that rejects every read.\<close>

definition rejecting_world :: world where
  "rejecting_world = fresh_cache_world\<lparr>getItem_rejects := (\<lambda>n key. True)\<rparr>"

text \<open>A store whose cache entry and favorites entry hold a text that is not JSON.\<close>

definition garbled_world :: world where
  "garbled_world =
     calm_world\<lparr>items := [cache_key ''USD'' \<mapsto> ''<html>'', FAVORITES_KEY \<mapsto> ''<html>'']\<rparr>"

text \<open>A store whose favorites are the one code \<open>USD\<close>.\<close>

definition usd_favorite_world :: world where
  "usd_favorite_world =
     calm_world\<lparr>items := [FAVORITES_KEY \<mapsto> example_stringify_strings [''USD'']]\<rparr>"

section \<open>Properties of the conversion\<close>

text \<open>
  C3. Converting between equal currencies returns the amount unchanged, for every
  amount (zero, the infinities and NaN included), every code and every rate table,
  also one with no entry for the code.
\<close>

theorem convertCurrency_same_currency:
  "convertCurrency a c c rs = a"
  by (simp add: convertCurrency_def)

text \<open>
  C4, as stated, fails when the two codes are equal: the guard on equal codes returns
  the amount before the table is looked at, so with an empty table the amount 5 comes
  back as 5, not 0.
\<close>

theorem convertCurrency_missing_rate_counterexample:
  "(Map.empty :: ExchangeRates) ''USD'' = None \<and>
   convertCurrency (Fin 5) ''USD'' ''USD'' Map.empty = Fin 5 \<and>
   convertCurrency (Fin 5) ''USD'' ''USD'' Map.empty \<noteq> Fin 0"
  by (simp add: convertCurrency_def)

text \<open>
  Beside the guard, the product with the rate 0 is 0 only for a finite amount: NaN and
  the infinities give NaN.
\<close>

lemma convertCurrency_missing_rate_not_finite:
  "convertCurrency NaN ''USD'' ''EUR'' Map.empty = NaN \<and>
   convertCurrency PosInfinity ''USD'' ''EUR'' Map.empty = NaN \<and>
   convertCurrency NegInfinity ''USD'' ''EUR'' Map.empty = NaN"
  by (simp add: convertCurrency_def rate_or_zero_def get_rate_def Object_prototype_def)

text \<open>
  Nor is it 0 when the target is a name every object inherits: on the empty table
  \<open>rates["toString"]\<close> is a function, which is truthy and multiplies to NaN. So does
  every name of \<open>Object.prototype\<close> that the table does not define itself.
\<close>

lemma convertCurrency_inherited_name:
  "(Map.empty :: ExchangeRates) ''toString'' = None \<and>
   convertCurrency (Fin 5) ''USD'' ''toString'' Map.empty = NaN"
  by (simp add: convertCurrency_def rate_or_zero_def get_rate_def Object_prototype_def)

lemma convertCurrency_inherited:
  "rs toCurrency = None \<Longrightarrow> toCurrency \<in> set Object_prototype \<Longrightarrow>
   fromCurrency \<noteq> toCurrency \<Longrightarrow>
   convertCurrency amount fromCurrency toCurrency rs = NaN"
  by (cases amount) (simp_all add: convertCurrency_def rate_or_zero_def get_rate_def)

text \<open>
  C4, amended. For every finite amount and two different codes, when the rate table
  has no entry for the target code and the target code is not one of the names
  inherited from \<open>Object.prototype\<close>, the conversion returns 0: the missing entry counts
  as the rate 0. The function is total, so no input makes it fail.
\<close>

theorem convertCurrency_missing_rate:
  "rs toCurrency = None \<Longrightarrow> toCurrency \<notin> set Object_prototype \<Longrightarrow>
   fromCurrency \<noteq> toCurrency \<Longrightarrow>
   convertCurrency (Fin a) fromCurrency toCurrency rs = Fin 0"
  by (simp add: convertCurrency_def rate_or_zero_def get_rate_def)

theorem convertCurrency_missing_rate_witness:
  "example_rates ''GBP'' = None \<and> ''GBP'' \<notin> set Object_prototype \<and> ''USD'' \<noteq> ''GBP'' \<and>
   convertCurrency (Fin 100) ''USD'' ''GBP'' example_rates = Fin 0 \<and>
   (Map.empty :: ExchangeRates) ''EUR'' = None \<and> ''EUR'' \<notin> set Object_prototype \<and>
   ''USD'' \<noteq> ''EUR'' \<and>
   convertCurrency (Fin 100) ''USD'' ''EUR'' Map.empty = Fin 0"
  using convertCurrency_missing_rate [of example_rates "''GBP''" "''USD''" 100]
    convertCurrency_missing_rate [of Map.empty "''EUR''" "''USD''" 100]
  by (simp add: example_rates_def Object_prototype_def)

text \<open>
  The worked example of the specification: with the rates of the example snapshot,
  100 units of the base convert to 90 \<open>EUR\<close>, to 15000 \<open>JPY\<close> and to 100 \<open>USD\<close>.
\<close>

lemma convertCurrency_worked_example:
  "convertCurrency (Fin 100) ''USD'' ''EUR'' example_rates = Fin 90"
  "convertCurrency (Fin 100) ''USD'' ''JPY'' example_rates = Fin 15000"
  "convertCurrency (Fin 100) ''USD'' ''USD'' example_rates = Fin 100"
  by (simp_all add: convertCurrency_def rate_or_zero_def get_rate_def truthy_number_def
      example_rates_def)

section \<open>What one call of each operation does\<close>

text \<open>
  The getters and setters catch every exception of the store and of the decoder, so
  each is a total function of the world: its result and the world it leaves are given
  in closed form.
\<close>

lemma getCachedRates_run:
  "getCachedRates J X w =
     (Inr (if getItem_rejects w (tick w) (cache_key X) then None
           else (case items w (cache_key X) of
                  None \<Rightarrow> None
                | Some t \<Rightarrow>
                    if t = [] then None
                    else (case parse_CurrencyData J t of Inl e \<Rightarrow> None | Inr v \<Rightarrow> v))),
      w\<lparr>tick := Suc (tick w)\<rparr>)"
  by (simp add: getCachedRates_def try_catch_def await_def AsyncStorage_getItem_def
      resolve_def settled_def split: option.splits sum.splits)

lemma getFavoriteCurrencies_run:
  "getFavoriteCurrencies J w =
     (Inr (if getItem_rejects w (tick w) FAVORITES_KEY then []
           else (case items w FAVORITES_KEY of
                  None \<Rightarrow> []
                | Some t \<Rightarrow>
                    if t = [] then []
                    else (case parse_strings J t of Inl e \<Rightarrow> [] | Inr v \<Rightarrow> v))),
      w\<lparr>tick := Suc (tick w)\<rparr>)"
  by (simp add: getFavoriteCurrencies_def try_catch_def await_def AsyncStorage_getItem_def
      resolve_def settled_def split: option.splits sum.splits)

lemma getBaseCurrency_run:
  "getBaseCurrency w =
     (Inr (if getItem_rejects w (tick w) BASE_CURRENCY_KEY then ''USD''
           else (case items w BASE_CURRENCY_KEY of
                  None \<Rightarrow> ''USD''
                | Some t \<Rightarrow> if t = [] then ''USD'' else t)),
      w\<lparr>tick := Suc (tick w)\<rparr>)"
  by (simp add: getBaseCurrency_def try_catch_def await_def AsyncStorage_getItem_def
      resolve_def split: option.splits)

lemma setFavoriteCurrencies_run:
  "setFavoriteCurrencies J l w =
     (Inr (),
      w\<lparr>items := (if setItem_rejects w (tick w) FAVORITES_KEY then items w
                  else (items w)(FAVORITES_KEY \<mapsto> stringify_strings J l)),
        writes := writes w @ [(FAVORITES_KEY, stringify_strings J l)],
        tick := Suc (tick w)\<rparr>)"
  by (simp add: setFavoriteCurrencies_def try_catch_def AsyncStorage_setItem_def resolve_def)

lemma setBaseCurrency_run:
  "setBaseCurrency c w =
     (Inr (),
      w\<lparr>items := (if setItem_rejects w (tick w) BASE_CURRENCY_KEY then items w
                  else (items w)(BASE_CURRENCY_KEY \<mapsto> c)),
        writes := writes w @ [(BASE_CURRENCY_KEY, c)],
        tick := Suc (tick w)\<rparr>)"
  by (simp add: setBaseCurrency_def try_catch_def AsyncStorage_setItem_def resolve_def)

lemma cacheRates_run:
  "cacheRates J X d w =
     (Inr (),
      w\<lparr>items := (if setItem_rejects w (tick w) (cache_key X) then items w
                  else (items w)(cache_key X \<mapsto> stringify_CurrencyData J d)),
        writes := writes w @ [(cache_key X, stringify_CurrencyData J d)],
        tick := Suc (tick w)\<rparr>)"
  by (simp add: cacheRates_def try_catch_def AsyncStorage_setItem_def resolve_def)

lemma isCacheValid_run:
  "isCacheValid ts w = (Inr (js_lt (js_sub (clock w (tick w)) ts) CACHE_DURATION), w)"
  by (simp add: isCacheValid_def await_def Date_now_def resolve_def)

lemma getExchangeRates_network_fails:
  assumes "network_step_fails (fetch_outcome w (tick w) (baseUrl @ ''/'' @ X))"
  shows "\<exists>e. getExchangeRates_network J X w =
           (Inl e, w\<lparr>fetches := fetches w @ [baseUrl @ ''/'' @ X], tick := Suc (tick w)\<rparr>)"
proof (cases "fetch_outcome w (tick w) (baseUrl @ ''/'' @ X)")
  case (Inl e)
  then show ?thesis
    by (simp add: getExchangeRates_network_def await_def fetch_def)
next
  case (Inr response)
  show ?thesis
  proof (cases "ok response")
    case True
    with assms Inr consider e where "json response = Inl e" | "json response = Inr Null"
      by (auto simp: network_step_fails_def isl_def)
    then show ?thesis
    proof cases
      case 1
      with True Inr show ?thesis
        by (simp add: getExchangeRates_network_def await_def fetch_def settled_def)
    next
      case 2
      with True Inr show ?thesis
        by (simp add: getExchangeRates_network_def await_def fetch_def settled_def reject_def)
    qed
  next
    case False
    with Inr show ?thesis
      by (simp add: getExchangeRates_network_def await_def fetch_def reject_def)
  qed
qed

text \<open>
  On every other outcome the network step goes through: the snapshot is built from
  whatever the body holds, stamped, written to the cache and returned.
\<close>

lemma getExchangeRates_network_succeeds:
  assumes "fetch_outcome w (tick w) (baseUrl @ ''/'' @ X) = Inr response"
    and "ok response" and "json response = Inr (Value data_rates data_base)"
  shows "getExchangeRates_network J X w =
           (Inr \<lparr>rates = data_rates, base = data_base, timestamp = clock w (Suc (tick w))\<rparr>,
            snd (cacheRates J X
                   \<lparr>rates = data_rates, base = data_base, timestamp = clock w (Suc (tick w))\<rparr>
                   (w\<lparr>fetches := fetches w @ [baseUrl @ ''/'' @ X], tick := Suc (tick w)\<rparr>)))"
  using assms
  by (simp add: getExchangeRates_network_def await_def fetch_def settled_def Date_now_def
      cacheRates_run resolve_def Let_def)

lemmas example_defs =
  example_JSON_def example_parse_strings_def example_stringify_strings_def example_lists_def
  example_snapshot_def example_snapshot_text_def quoted_def
  calm_world_def fresh_cache_world_def stale_cache_world_def rejecting_world_def
  garbled_world_def usd_favorite_world_def bad_body_world_def flaky_store_world_def
  null_body_world_def wrong_shape_world_def bare_snapshot_def bare_snapshot_text_def cache_key_def CACHE_KEY_def FAVORITES_KEY_def
  BASE_CURRENCY_KEY_def CACHE_DURATION_def baseUrl_def

section \<open>Properties of the rate cache\<close>

text \<open>
  C1. When the cache read for a base currency returns an entry, and the entry is fresh
  at the time of the check (the clock reading after that one read, minus the entry's
  timestamp, is less than six hours), \<open>getExchangeRates\<close> returns exactly that entry,
  requests nothing from the network and never calls \<open>setItem\<close>: the content of the
  store, the list of writes and the list of requests are what they were.
\<close>

theorem getExchangeRates_fresh_cache:
  assumes "fst (getCachedRates J X w) = Inr (Some d)"
    and "now = clock w (Suc (tick w))"
    and "js_lt (js_sub now (timestamp d)) CACHE_DURATION"
  shows "\<exists>w'. getExchangeRates J X w = (Inr d, w') \<and>
           items w' = items w \<and> writes w' = writes w \<and> fetches w' = fetches w"
proof -
  have "getCachedRates J X w = (Inr (Some d), w\<lparr>tick := Suc (tick w)\<rparr>)"
    using assms(1) by (simp add: getCachedRates_run)
  then have "getExchangeRates J X w = (Inr d, w\<lparr>tick := Suc (tick w)\<rparr>)"
    using assms(2,3)
    by (simp add: getExchangeRates_def try_catch_def await_def isCacheValid_run resolve_def)
  then show ?thesis by simp
qed

theorem getExchangeRates_fresh_cache_witness:
  "fst (getCachedRates example_JSON ''USD'' fresh_cache_world) = Inr (Some example_snapshot) \<and>
   js_lt (js_sub (clock fresh_cache_world (Suc (tick fresh_cache_world)))
            (timestamp example_snapshot)) CACHE_DURATION \<and>
   (\<exists>w'. getExchangeRates example_JSON ''USD'' fresh_cache_world = (Inr example_snapshot, w') \<and>
      items w' = items fresh_cache_world \<and> writes w' = [] \<and> fetches w' = [])"
proof -
  have h1: "fst (getCachedRates example_JSON ''USD'' fresh_cache_world) = Inr (Some example_snapshot)"
    by (simp add: getCachedRates_run example_defs)
  have h3: "js_lt (js_sub (clock fresh_cache_world (Suc (tick fresh_cache_world)))
            (timestamp example_snapshot)) CACHE_DURATION"
    by (simp add: example_defs)
  from getExchangeRates_fresh_cache [OF h1 refl h3] h1 h3 show ?thesis
    by (simp add: fresh_cache_world_def calm_world_def)
qed

text \<open>
  C2, as stated, fails for a malformed payload that is JSON: the service does not look
  at the shape of the body. With a stale entry in the cache and a server that answers
  200 with the body \<open>{}\<close>, \<open>getExchangeRates\<close> does not fall back: it returns a snapshot
  without rates and without base, not the cached entry, and writes it over the cached
  entry.
\<close>

theorem getExchangeRates_network_failure_counterexample:
  "(\<forall>n. \<not> getItem_rejects wrong_shape_world n (cache_key ''USD'')) \<and>
   fetch_outcome wrong_shape_world 1 (baseUrl @ ''/'' @ ''USD'') =
     Inr (Response 200 (Inr (Value None None))) \<and>
   fst (getCachedRates example_JSON ''USD'' wrong_shape_world) = Inr (Some example_snapshot) \<and>
   fst (getExchangeRates example_JSON ''USD'' wrong_shape_world) = Inr bare_snapshot \<and>
   bare_snapshot \<noteq> example_snapshot \<and>
   items wrong_shape_world (cache_key ''USD'') = Some example_snapshot_text \<and>
   items (snd (getExchangeRates example_JSON ''USD'' wrong_shape_world)) (cache_key ''USD'') =
     Some bare_snapshot_text \<and>
   bare_snapshot_text \<noteq> example_snapshot_text \<and>
   writes (snd (getExchangeRates example_JSON ''USD'' wrong_shape_world)) =
     [(cache_key ''USD'', bare_snapshot_text)]"
proof -
  let ?w1 = "wrong_shape_world\<lparr>tick := Suc 0\<rparr>"
  have first: "getCachedRates example_JSON ''USD'' wrong_shape_world =
      (Inr (Some example_snapshot), ?w1)"
    by (simp add: getCachedRates_run example_defs)
  have stale: "isCacheValid (timestamp example_snapshot) ?w1 = (Inr False, ?w1)"
    by (simp add: isCacheValid_run example_defs)
  have net: "getExchangeRates_network example_JSON ''USD'' ?w1 =
      (Inr bare_snapshot,
       snd (cacheRates example_JSON ''USD'' bare_snapshot
              (?w1\<lparr>fetches := fetches ?w1 @ [baseUrl @ ''/'' @ ''USD''], tick := Suc (tick ?w1)\<rparr>)))"
    using getExchangeRates_network_succeeds
      [of ?w1 "''USD''" "Response 200 (Inr (Value None None))" None None example_JSON]
    by (simp add: ok_def wrong_shape_world_def stale_cache_world_def bare_snapshot_def)
  from first stale net
  have run: "getExchangeRates example_JSON ''USD'' wrong_shape_world =
      (Inr bare_snapshot,
       snd (cacheRates example_JSON ''USD'' bare_snapshot
              (?w1\<lparr>fetches := fetches ?w1 @ [baseUrl @ ''/'' @ ''USD''], tick := Suc (tick ?w1)\<rparr>)))"
    by (simp add: getExchangeRates_def try_catch_def await_def)
  have texts: "bare_snapshot_text \<noteq> example_snapshot_text"
    by (simp add: example_defs)
  have snaps: "bare_snapshot \<noteq> example_snapshot"
    by (simp add: bare_snapshot_def example_snapshot_def)
  have before: "(\<forall>n. \<not> getItem_rejects wrong_shape_world n (cache_key ''USD'')) \<and>
      fetch_outcome wrong_shape_world 1 (baseUrl @ ''/'' @ ''USD'') =
        Inr (Response 200 (Inr (Value None None))) \<and>
      items wrong_shape_world (cache_key ''USD'') = Some example_snapshot_text"
    by (simp add: wrong_shape_world_def stale_cache_world_def fresh_cache_world_def
        calm_world_def)
  have after: "items (snd (getExchangeRates example_JSON ''USD'' wrong_shape_world))
        (cache_key ''USD'') = Some bare_snapshot_text \<and>
      writes (snd (getExchangeRates example_JSON ''USD'' wrong_shape_world)) =
        [(cache_key ''USD'', bare_snapshot_text)]"
    by (simp add: run cacheRates_run)
       (simp add: wrong_shape_world_def stale_cache_world_def fresh_cache_world_def
          calm_world_def example_JSON_def bare_snapshot_def)
  from first run texts snaps before after show ?thesis by simp
qed

text \<open>
  C2, amended. Let the store answer every read of the cache key, and let the request
  for the base currency fail: the request is rejected, the status is outside 200 to
  299, the body is not JSON, or the body is \<open>null\<close>. When the cache read returns an
  entry, fresh or stale, \<open>getExchangeRates\<close> returns that entry; when it returns none,
  \<open>getExchangeRates\<close> throws the error with the message about the internet connection.
  In both cases the content of the store is unchanged and \<open>setItem\<close> is never called.
\<close>

theorem getExchangeRates_network_failure:
  assumes readable: "\<forall>n. \<not> getItem_rejects w n (cache_key X)"
    and down: "network_step_fails (fetch_outcome w (Suc (tick w)) (baseUrl @ ''/'' @ X))"
  shows "(\<forall>d. fst (getCachedRates J X w) = Inr (Some d) \<longrightarrow>
            (\<exists>w'. getExchangeRates J X w = (Inr d, w') \<and>
                   items w' = items w \<and> writes w' = writes w)) \<and>
         (fst (getCachedRates J X w) = Inr None \<longrightarrow>
            (\<exists>w'. getExchangeRates J X w =
                     (Inl (Error ''Unable to fetch exchange rates. Please check your internet connection.''), w') \<and>
                   items w' = items w \<and> writes w' = writes w))"
proof -
  let ?w1 = "w\<lparr>tick := Suc (tick w)\<rparr>"
  let ?w2 = "?w1\<lparr>fetches := fetches ?w1 @ [baseUrl @ ''/'' @ X], tick := Suc (tick ?w1)\<rparr>"
  obtain c where first: "getCachedRates J X w = (Inr c, ?w1)"
    by (simp add: getCachedRates_run)
  have again: "getCachedRates J X ?w2 = (Inr c, ?w2\<lparr>tick := Suc (tick ?w2)\<rparr>)"
    using first readable by (simp add: getCachedRates_run)
  from down obtain e where net: "getExchangeRates_network J X ?w1 = (Inl e, ?w2)"
    using getExchangeRates_network_fails [of ?w1 X J] by auto
  show ?thesis
  proof (cases c)
    case None
    with first again net show ?thesis
      by (simp add: getExchangeRates_def try_catch_def await_def reject_def)
  next
    case (Some d)
    show ?thesis
    proof (cases "js_lt (js_sub (clock ?w1 (tick ?w1)) (timestamp d)) CACHE_DURATION")
      case True
      with Some first show ?thesis
        by (simp add: getExchangeRates_def try_catch_def await_def isCacheValid_run resolve_def)
    next
      case False
      with Some first again net show ?thesis
        by (simp add: getExchangeRates_def try_catch_def await_def isCacheValid_run resolve_def)
    qed
  qed
qed

theorem getExchangeRates_network_failure_witness:
  "(\<forall>n. \<not> getItem_rejects stale_cache_world n (cache_key ''USD'')) \<and>
   network_step_fails
     (fetch_outcome stale_cache_world (Suc (tick stale_cache_world)) (baseUrl @ ''/'' @ ''USD'')) \<and>
   fst (getCachedRates example_JSON ''USD'' stale_cache_world) = Inr (Some example_snapshot) \<and>
   \<not> js_lt (js_sub (clock stale_cache_world 1) (timestamp example_snapshot)) CACHE_DURATION \<and>
   (\<exists>w'. getExchangeRates example_JSON ''USD'' stale_cache_world = (Inr example_snapshot, w') \<and>
      items w' = items stale_cache_world \<and> writes w' = []) \<and>
   network_step_fails
     (fetch_outcome bad_body_world (Suc (tick bad_body_world)) (baseUrl @ ''/'' @ ''USD'')) \<and>
   (\<exists>w'. getExchangeRates example_JSON ''USD'' bad_body_world = (Inr example_snapshot, w') \<and>
      items w' = items bad_body_world \<and> writes w' = []) \<and>
   network_step_fails
     (fetch_outcome null_body_world (Suc (tick null_body_world)) (baseUrl @ ''/'' @ ''USD'')) \<and>
   (\<exists>w'. getExchangeRates example_JSON ''USD'' null_body_world = (Inr example_snapshot, w') \<and>
      items w' = items null_body_world \<and> writes w' = []) \<and>
   network_step_fails
     (fetch_outcome calm_world (Suc (tick calm_world)) (baseUrl @ ''/'' @ ''USD'')) \<and>
   fst (getCachedRates example_JSON ''USD'' calm_world) = Inr None \<and>
   (\<exists>w'. getExchangeRates example_JSON ''USD'' calm_world =
      (Inl (Error ''Unable to fetch exchange rates. Please check your internet connection.''), w'))"
proof -
  have r1: "\<forall>n. \<not> getItem_rejects stale_cache_world n (cache_key ''USD'')"
    by (simp add: stale_cache_world_def fresh_cache_world_def calm_world_def)
  have d1: "network_step_fails
     (fetch_outcome stale_cache_world (Suc (tick stale_cache_world)) (baseUrl @ ''/'' @ ''USD''))"
    by (simp add: network_step_fails_def ok_def stale_cache_world_def fresh_cache_world_def calm_world_def)
  have c1: "fst (getCachedRates example_JSON ''USD'' stale_cache_world) = Inr (Some example_snapshot)"
    by (simp add: getCachedRates_run example_defs)
  have s1: "\<not> js_lt (js_sub (clock stale_cache_world 1) (timestamp example_snapshot)) CACHE_DURATION"
    by (simp add: example_defs)
  have r3: "\<forall>n. \<not> getItem_rejects bad_body_world n (cache_key ''USD'')"
    by (simp add: bad_body_world_def stale_cache_world_def fresh_cache_world_def calm_world_def)
  have d3: "network_step_fails
     (fetch_outcome bad_body_world (Suc (tick bad_body_world)) (baseUrl @ ''/'' @ ''USD''))"
    by (simp add: network_step_fails_def ok_def bad_body_world_def)
  have c3: "fst (getCachedRates example_JSON ''USD'' bad_body_world) = Inr (Some example_snapshot)"
    by (simp add: getCachedRates_run example_defs)
  have r4: "\<forall>n. \<not> getItem_rejects null_body_world n (cache_key ''USD'')"
    by (simp add: null_body_world_def stale_cache_world_def fresh_cache_world_def calm_world_def)
  have d4: "network_step_fails
     (fetch_outcome null_body_world (Suc (tick null_body_world)) (baseUrl @ ''/'' @ ''USD''))"
    by (simp add: network_step_fails_def ok_def null_body_world_def)
  have c4: "fst (getCachedRates example_JSON ''USD'' null_body_world) = Inr (Some example_snapshot)"
    by (simp add: getCachedRates_run example_defs)
  have r2: "\<forall>n. \<not> getItem_rejects calm_world n (cache_key ''USD'')"
    by (simp add: calm_world_def)
  have d2: "network_step_fails
     (fetch_outcome calm_world (Suc (tick calm_world)) (baseUrl @ ''/'' @ ''USD''))"
    by (simp add: network_step_fails_def calm_world_def)
  have c2: "fst (getCachedRates example_JSON ''USD'' calm_world) = Inr None"
    by (simp add: getCachedRates_run example_defs)
  from getExchangeRates_network_failure [OF r1 d1, of example_JSON]
       getExchangeRates_network_failure [OF r3 d3, of example_JSON]
       getExchangeRates_network_failure [OF r4 d4, of example_JSON]
       getExchangeRates_network_failure [OF r2 d2, of example_JSON]
       r1 d1 c1 s1 d3 c3 d4 c4 d2 c2
  show ?thesis
    by (auto simp: bad_body_world_def null_body_world_def stale_cache_world_def
        fresh_cache_world_def calm_world_def)
qed

text \<open>
  The first hypothesis is needed. The fallback reads the cache a second time, and a
  rejected read counts as an absent entry: when the store answers the first read with
  the stale entry and rejects the second, the call throws although the entry is there.
\<close>

lemma getExchangeRates_fallback_read_rejected:
  "fst (getCachedRates example_JSON ''USD'' flaky_store_world) = Inr (Some example_snapshot) \<and>
   fst (getExchangeRates example_JSON ''USD'' flaky_store_world) =
     Inl (Error ''Unable to fetch exchange rates. Please check your internet connection.'')"
proof -
  let ?w1 = "flaky_store_world\<lparr>tick := Suc 0\<rparr>"
  let ?w2 = "?w1\<lparr>fetches := fetches ?w1 @ [baseUrl @ ''/'' @ ''USD''], tick := Suc (tick ?w1)\<rparr>"
  have first: "getCachedRates example_JSON ''USD'' flaky_store_world =
      (Inr (Some example_snapshot), ?w1)"
    by (simp add: getCachedRates_run example_defs)
  have stale: "isCacheValid (timestamp example_snapshot) ?w1 = (Inr False, ?w1)"
    by (simp add: isCacheValid_run example_defs)
  have "network_step_fails (fetch_outcome ?w1 (tick ?w1) (baseUrl @ ''/'' @ ''USD''))"
    by (simp add: network_step_fails_def ok_def flaky_store_world_def stale_cache_world_def)
  then obtain e where net: "getExchangeRates_network example_JSON ''USD'' ?w1 = (Inl e, ?w2)"
    using getExchangeRates_network_fails [of ?w1 "''USD''" example_JSON] by auto
  have again: "fst (getCachedRates example_JSON ''USD'' ?w2) = Inr None"
    by (simp add: getCachedRates_run flaky_store_world_def)
  then obtain w3 where again': "getCachedRates example_JSON ''USD'' ?w2 = (Inr None, w3)"
    by (cases "getCachedRates example_JSON ''USD'' ?w2") simp
  from first stale net again' show ?thesis
    by (simp add: getExchangeRates_def try_catch_def await_def reject_def)
qed

text \<open>
  C7. The three getters never throw, in any world. When the read of the key is
  rejected, and when the stored text does not decode, \<open>getCachedRates\<close> returns \<open>null\<close>
  and \<open>getFavoriteCurrencies\<close> the empty list; when the read is rejected,
  \<open>getBaseCurrency\<close> returns \<open>USD\<close> (it decodes nothing).
\<close>

theorem getters_absorb_storage_faults:
  "(\<exists>v. fst (getCachedRates J X w) = Inr v) \<and>
   (\<exists>v. fst (getFavoriteCurrencies J w) = Inr v) \<and>
   (\<exists>v. fst (getBaseCurrency w) = Inr v) \<and>
   (getItem_rejects w (tick w) (cache_key X) \<longrightarrow> fst (getCachedRates J X w) = Inr None) \<and>
   (\<forall>t e. items w (cache_key X) = Some t \<and> parse_CurrencyData J t = Inl e \<longrightarrow>
      fst (getCachedRates J X w) = Inr None) \<and>
   (getItem_rejects w (tick w) FAVORITES_KEY \<longrightarrow> fst (getFavoriteCurrencies J w) = Inr []) \<and>
   (\<forall>t e. items w FAVORITES_KEY = Some t \<and> parse_strings J t = Inl e \<longrightarrow>
      fst (getFavoriteCurrencies J w) = Inr []) \<and>
   (getItem_rejects w (tick w) BASE_CURRENCY_KEY \<longrightarrow> fst (getBaseCurrency w) = Inr ''USD'')"
  by (auto simp add: getCachedRates_run getFavoriteCurrencies_run getBaseCurrency_run)

theorem getters_absorb_storage_faults_witness:
  "getItem_rejects rejecting_world (tick rejecting_world) (cache_key ''USD'') \<and>
   getItem_rejects rejecting_world (tick rejecting_world) FAVORITES_KEY \<and>
   getItem_rejects rejecting_world (tick rejecting_world) BASE_CURRENCY_KEY \<and>
   items rejecting_world (cache_key ''USD'') = Some example_snapshot_text \<and>
   fst (getCachedRates example_JSON ''USD'' rejecting_world) = Inr None \<and>
   fst (getFavoriteCurrencies example_JSON rejecting_world) = Inr [] \<and>
   fst (getBaseCurrency rejecting_world) = Inr ''USD'' \<and>
   items garbled_world (cache_key ''USD'') = Some ''<html>'' \<and>
   parse_CurrencyData example_JSON ''<html>'' = Inl SyntaxError \<and>
   items garbled_world FAVORITES_KEY = Some ''<html>'' \<and>
   parse_strings example_JSON ''<html>'' = Inl SyntaxError \<and>
   fst (getCachedRates example_JSON ''USD'' garbled_world) = Inr None \<and>
   fst (getFavoriteCurrencies example_JSON garbled_world) = Inr []"
proof -
  have a: "getItem_rejects rejecting_world (tick rejecting_world) (cache_key ''USD'')"
    "getItem_rejects rejecting_world (tick rejecting_world) FAVORITES_KEY"
    "getItem_rejects rejecting_world (tick rejecting_world) BASE_CURRENCY_KEY"
    "items rejecting_world (cache_key ''USD'') = Some example_snapshot_text"
    by (simp_all add: rejecting_world_def fresh_cache_world_def calm_world_def)
  have b: "items garbled_world (cache_key ''USD'') = Some ''<html>''"
    "parse_CurrencyData example_JSON ''<html>'' = Inl SyntaxError"
    "items garbled_world FAVORITES_KEY = Some ''<html>''"
    "parse_strings example_JSON ''<html>'' = Inl SyntaxError"
    by (simp_all add: example_defs)
  from getters_absorb_storage_faults [of example_JSON "''USD''" rejecting_world]
       getters_absorb_storage_faults [of example_JSON "''USD''" garbled_world] a b
  show ?thesis by blast
qed

section \<open>Properties of the base currency\<close>

text \<open>
  C6. On a store that accepts the write and the read of the key, \<open>setBaseCurrency\<close> of
  a currency code (a text that is not empty, \<open>EUR\<close> for one) followed by
  \<open>getBaseCurrency\<close> returns that code; and \<open>getBaseCurrency\<close> on a store that has no
  entry for the key returns \<open>USD\<close>.
\<close>

theorem base_currency_set_then_get:
  "(c \<noteq> [] \<and> (\<forall>n. \<not> setItem_rejects w n BASE_CURRENCY_KEY) \<and>
      (\<forall>n. \<not> getItem_rejects w n BASE_CURRENCY_KEY) \<longrightarrow>
      (\<exists>w1 w2. setBaseCurrency c w = (Inr (), w1) \<and> getBaseCurrency w1 = (Inr c, w2))) \<and>
   (items w BASE_CURRENCY_KEY = None \<longrightarrow> fst (getBaseCurrency w) = Inr ''USD'')"
  by (simp add: setBaseCurrency_run getBaseCurrency_run)

theorem base_currency_set_then_get_witness:
  "''EUR'' \<noteq> [] \<and>
   (\<forall>n. \<not> setItem_rejects calm_world n BASE_CURRENCY_KEY) \<and>
   (\<forall>n. \<not> getItem_rejects calm_world n BASE_CURRENCY_KEY) \<and>
   (\<exists>w1 w2. setBaseCurrency ''EUR'' calm_world = (Inr (), w1) \<and>
      getBaseCurrency w1 = (Inr ''EUR'', w2)) \<and>
   items calm_world BASE_CURRENCY_KEY = None \<and>
   fst (getBaseCurrency calm_world) = Inr ''USD''"
  using base_currency_set_then_get [of "''EUR''" calm_world]
  by (simp add: calm_world_def)

text \<open>
  C9. When the stored base currency is the empty text, \<open>getBaseCurrency\<close> returns
  \<open>USD\<close>; so, on a store that accepts the write, \<open>setBaseCurrency\<close> of the empty text
  followed by \<open>getBaseCurrency\<close> returns \<open>USD\<close>, not the empty text.
\<close>

theorem base_currency_empty_text:
  "(items w BASE_CURRENCY_KEY = Some [] \<longrightarrow> fst (getBaseCurrency w) = Inr ''USD'') \<and>
   ((\<forall>n. \<not> setItem_rejects w n BASE_CURRENCY_KEY) \<longrightarrow>
      (\<exists>w1 w2. setBaseCurrency [] w = (Inr (), w1) \<and> getBaseCurrency w1 = (Inr ''USD'', w2)))"
  by (simp add: setBaseCurrency_run getBaseCurrency_run)

theorem base_currency_empty_text_witness:
  "items (calm_world\<lparr>items := [BASE_CURRENCY_KEY \<mapsto> []]\<rparr>) BASE_CURRENCY_KEY = Some [] \<and>
   fst (getBaseCurrency (calm_world\<lparr>items := [BASE_CURRENCY_KEY \<mapsto> []]\<rparr>)) = Inr ''USD'' \<and>
   (\<forall>n. \<not> setItem_rejects calm_world n BASE_CURRENCY_KEY) \<and>
   (\<exists>w1 w2. setBaseCurrency [] calm_world = (Inr (), w1) \<and>
      items w1 BASE_CURRENCY_KEY = Some [] \<and> getBaseCurrency w1 = (Inr ''USD'', w2))"
  using base_currency_empty_text [of "calm_world\<lparr>items := [BASE_CURRENCY_KEY \<mapsto> []]\<rparr>"]
    base_currency_empty_text [of calm_world]
  by (auto simp add: calm_world_def setBaseCurrency_run)

section \<open>Properties of the favorites\<close>

text \<open>
  C10. On a store that accepts the write and the read of the key, and for a list that
  JSON renders and decodes back, \<open>setFavoriteCurrencies\<close> stores the rendering of the
  list as it is given, and \<open>getFavoriteCurrencies\<close> then returns exactly that list.
  Nothing is removed or checked: the list may hold a code twice.
\<close>

theorem setFavoriteCurrencies_then_get:
  assumes "\<forall>n. \<not> setItem_rejects w n FAVORITES_KEY"
    and "\<forall>n. \<not> getItem_rejects w n FAVORITES_KEY"
    and "strings_roundtrip J l"
  shows "\<exists>w1 w2. setFavoriteCurrencies J l w = (Inr (), w1) \<and>
           items w1 FAVORITES_KEY = Some (stringify_strings J l) \<and>
           getFavoriteCurrencies J w1 = (Inr l, w2)"
  using assms
  by (simp add: setFavoriteCurrencies_run getFavoriteCurrencies_run strings_roundtrip_def)

theorem setFavoriteCurrencies_then_get_witness:
  "(\<forall>n. \<not> setItem_rejects calm_world n FAVORITES_KEY) \<and>
   (\<forall>n. \<not> getItem_rejects calm_world n FAVORITES_KEY) \<and>
   strings_roundtrip example_JSON [''USD'', ''USD''] \<and>
   \<not> distinct [''USD'', ''USD''] \<and>
   (\<exists>w1 w2. setFavoriteCurrencies example_JSON [''USD'', ''USD''] calm_world = (Inr (), w1) \<and>
      items w1 FAVORITES_KEY = Some (stringify_strings example_JSON [''USD'', ''USD'']) \<and>
      getFavoriteCurrencies example_JSON w1 = (Inr [''USD'', ''USD''], w2))"
proof -
  have a: "\<forall>n. \<not> setItem_rejects calm_world n FAVORITES_KEY"
    "\<forall>n. \<not> getItem_rejects calm_world n FAVORITES_KEY"
    by (simp_all add: calm_world_def)
  have r: "strings_roundtrip example_JSON [''USD'', ''USD'']"
    by (simp add: strings_roundtrip_def example_defs)
  from setFavoriteCurrencies_then_get [OF a r] a r show ?thesis by simp
qed

text \<open>
  The three mutators on a store that accepts every read and write of the key: the list
  read afterwards, in closed form. The store stays available, so calls can be chained.
\<close>

lemma favorites_after_set:
  assumes "\<forall>n. \<not> setItem_rejects w n FAVORITES_KEY"
    and "\<forall>n. \<not> getItem_rejects w n FAVORITES_KEY"
    and "strings_roundtrip J l"
  shows "\<exists>w1. setFavoriteCurrencies J l w = (Inr (), w1) \<and>
           fst (getFavoriteCurrencies J w1) = Inr l \<and>
           (\<forall>n. \<not> setItem_rejects w1 n FAVORITES_KEY) \<and>
           (\<forall>n. \<not> getItem_rejects w1 n FAVORITES_KEY)"
  using assms
  by (simp add: setFavoriteCurrencies_run getFavoriteCurrencies_run strings_roundtrip_def)

lemma favorites_after_add:
  assumes "\<forall>n. \<not> setItem_rejects w n FAVORITES_KEY"
    and "\<forall>n. \<not> getItem_rejects w n FAVORITES_KEY"
    and "fst (getFavoriteCurrencies J w) = Inr favs"
    and "c \<notin> set favs \<longrightarrow> strings_roundtrip J (favs @ [c])"
  shows "\<exists>w1. addFavoriteCurrency J c w = (Inr (), w1) \<and>
           fst (getFavoriteCurrencies J w1) = Inr (if c \<in> set favs then favs else favs @ [c]) \<and>
           (c \<in> set favs \<longrightarrow> items w1 = items w \<and> writes w1 = writes w) \<and>
           (\<forall>n. \<not> setItem_rejects w1 n FAVORITES_KEY) \<and>
           (\<forall>n. \<not> getItem_rejects w1 n FAVORITES_KEY)"
proof -
  let ?w0 = "w\<lparr>tick := Suc (tick w)\<rparr>"
  have rd: "getFavoriteCurrencies J w = (Inr favs, ?w0)"
    using assms(3) by (simp add: getFavoriteCurrencies_run)
  show ?thesis
  proof (cases "c \<in> set favs")
    case True
    have "fst (getFavoriteCurrencies J ?w0) = Inr favs"
      using assms(2,3) by (simp add: getFavoriteCurrencies_run)
    with True rd assms(1,2) show ?thesis
      by (simp add: addFavoriteCurrency_def await_def resolve_def)
  next
    case False
    from favorites_after_set [of ?w0 J "favs @ [c]"] assms False
    obtain w1 where "setFavoriteCurrencies J (favs @ [c]) ?w0 = (Inr (), w1)"
      and "fst (getFavoriteCurrencies J w1) = Inr (favs @ [c])"
      and "\<forall>n. \<not> setItem_rejects w1 n FAVORITES_KEY"
      and "\<forall>n. \<not> getItem_rejects w1 n FAVORITES_KEY"
      by auto
    with False rd show ?thesis
      by (simp add: addFavoriteCurrency_def await_def)
  qed
qed

lemma favorites_after_remove:
  assumes "\<forall>n. \<not> setItem_rejects w n FAVORITES_KEY"
    and "\<forall>n. \<not> getItem_rejects w n FAVORITES_KEY"
    and "fst (getFavoriteCurrencies J w) = Inr favs"
    and "strings_roundtrip J (filter (\<lambda>fav. fav \<noteq> c) favs)"
  shows "\<exists>w1. removeFavoriteCurrency J c w = (Inr (), w1) \<and>
           fst (getFavoriteCurrencies J w1) = Inr (filter (\<lambda>fav. fav \<noteq> c) favs) \<and>
           (\<forall>n. \<not> setItem_rejects w1 n FAVORITES_KEY) \<and>
           (\<forall>n. \<not> getItem_rejects w1 n FAVORITES_KEY)"
proof -
  let ?w0 = "w\<lparr>tick := Suc (tick w)\<rparr>"
  have rd: "getFavoriteCurrencies J w = (Inr favs, ?w0)"
    using assms(3) by (simp add: getFavoriteCurrencies_run)
  from favorites_after_set [of ?w0 J "filter (\<lambda>fav. fav \<noteq> c) favs"] assms
  obtain w1 where "setFavoriteCurrencies J (filter (\<lambda>fav. fav \<noteq> c) favs) ?w0 = (Inr (), w1)"
    and "fst (getFavoriteCurrencies J w1) = Inr (filter (\<lambda>fav. fav \<noteq> c) favs)"
    and "\<forall>n. \<not> setItem_rejects w1 n FAVORITES_KEY"
    and "\<forall>n. \<not> getItem_rejects w1 n FAVORITES_KEY"
    by auto
  with rd show ?thesis
    by (simp add: removeFavoriteCurrency_def await_def)
qed

lemma favorites_after_toggle:
  assumes "\<forall>n. \<not> setItem_rejects w n FAVORITES_KEY"
    and "\<forall>n. \<not> getItem_rejects w n FAVORITES_KEY"
    and "fst (getFavoriteCurrencies J w) = Inr favs"
    and "strings_roundtrip J
           (if c \<in> set favs then filter (\<lambda>fav. fav \<noteq> c) favs else favs @ [c])"
  shows "\<exists>w1. toggleFavoriteCurrency J c w = (Inr (c \<notin> set favs), w1) \<and>
           fst (getFavoriteCurrencies J w1) =
             Inr (if c \<in> set favs then filter (\<lambda>fav. fav \<noteq> c) favs else favs @ [c]) \<and>
           (\<forall>n. \<not> setItem_rejects w1 n FAVORITES_KEY) \<and>
           (\<forall>n. \<not> getItem_rejects w1 n FAVORITES_KEY)"
proof -
  let ?w0 = "w\<lparr>tick := Suc (tick w)\<rparr>"
  have rd: "getFavoriteCurrencies J w = (Inr favs, ?w0)"
    using assms(3) by (simp add: getFavoriteCurrencies_run)
  have rd0: "fst (getFavoriteCurrencies J ?w0) = Inr favs"
    using assms(2,3) by (simp add: getFavoriteCurrencies_run)
  show ?thesis
  proof (cases "c \<in> set favs")
    case True
    from favorites_after_remove [of ?w0 J favs c] assms rd0 True
    obtain w1 where "removeFavoriteCurrency J c ?w0 = (Inr (), w1)"
      and "fst (getFavoriteCurrencies J w1) = Inr (filter (\<lambda>fav. fav \<noteq> c) favs)"
      and "\<forall>n. \<not> setItem_rejects w1 n FAVORITES_KEY"
      and "\<forall>n. \<not> getItem_rejects w1 n FAVORITES_KEY"
      by auto
    with True rd show ?thesis
      by (simp add: toggleFavoriteCurrency_def await_def resolve_def)
  next
    case False
    from favorites_after_add [of ?w0 J favs c] assms rd0 False
    obtain w1 where "addFavoriteCurrency J c ?w0 = (Inr (), w1)"
      and "fst (getFavoriteCurrencies J w1) = Inr (if c \<in> set favs then favs else favs @ [c])"
      and "\<forall>n. \<not> setItem_rejects w1 n FAVORITES_KEY"
      and "\<forall>n. \<not> getItem_rejects w1 n FAVORITES_KEY"
      by auto
    with False rd show ?thesis
      by (simp add: toggleFavoriteCurrency_def await_def resolve_def)
  qed
qed

lemma filter_other_codes:
  "c \<notin> set favs \<Longrightarrow> filter (\<lambda>fav. fav \<noteq> c) favs = favs"
  by (induction favs) auto

lemma kept_in_order_append:
  "c \<notin> set favs \<Longrightarrow> kept_in_order favs (favs @ [c])"
  by (induction favs) (auto simp: kept_in_order_def)

lemma kept_in_order_filter:
  "kept_in_order favs (filter (\<lambda>fav. fav \<noteq> c) favs)"
  unfolding kept_in_order_def
  by (induction favs) (auto intro: filter_cong)

lemma kept_in_order_same: "kept_in_order favs favs"
  by (simp add: kept_in_order_def)

lemma usd_favorite_world_available:
  "\<forall>n. \<not> setItem_rejects usd_favorite_world n FAVORITES_KEY"
  "\<forall>n. \<not> getItem_rejects usd_favorite_world n FAVORITES_KEY"
  by (simp_all add: usd_favorite_world_def calm_world_def)

lemma usd_favorite_world_favorites:
  "fst (getFavoriteCurrencies example_JSON usd_favorite_world) = Inr [''USD'']"
  by (simp add: getFavoriteCurrencies_run example_defs)

lemma example_roundtrips:
  "strings_roundtrip example_JSON []"
  "strings_roundtrip example_JSON [''USD'']"
  "strings_roundtrip example_JSON [''EUR'']"
  "strings_roundtrip example_JSON [''USD'', ''EUR'']"
  "strings_roundtrip example_JSON [''EUR'', ''USD'']"
  by (simp_all add: strings_roundtrip_def example_defs)

text \<open>
  C8. On a store that accepts every read and write of the key, with \<open>favs\<close> the list
  read before the call: \<open>addFavoriteCurrency\<close> writes nothing when the code is present
  and appends it at the end otherwise; \<open>removeFavoriteCurrency\<close> leaves the other codes;
  \<open>toggleFavoriteCurrency\<close> does the one or the other. After each of the three, a list
  without duplicates is still without duplicates, and the codes kept stand in the order
  they had.
\<close>

theorem favorites_unique_and_ordered:
  assumes "\<forall>n. \<not> setItem_rejects w n FAVORITES_KEY"
    and "\<forall>n. \<not> getItem_rejects w n FAVORITES_KEY"
    and "fst (getFavoriteCurrencies J w) = Inr favs"
    and "strings_roundtrip J (favs @ [c])"
    and "strings_roundtrip J (filter (\<lambda>fav. fav \<noteq> c) favs)"
  shows "(\<exists>w1 favs1. addFavoriteCurrency J c w = (Inr (), w1) \<and>
            fst (getFavoriteCurrencies J w1) = Inr favs1 \<and>
            favs1 = (if c \<in> set favs then favs else favs @ [c]) \<and>
            (c \<in> set favs \<longrightarrow> items w1 = items w \<and> writes w1 = writes w) \<and>
            (distinct favs \<longrightarrow> distinct favs1) \<and> kept_in_order favs favs1) \<and>
         (\<exists>w1 favs1. removeFavoriteCurrency J c w = (Inr (), w1) \<and>
            fst (getFavoriteCurrencies J w1) = Inr favs1 \<and>
            favs1 = filter (\<lambda>fav. fav \<noteq> c) favs \<and>
            (distinct favs \<longrightarrow> distinct favs1) \<and> kept_in_order favs favs1) \<and>
         (\<exists>w1 favs1. toggleFavoriteCurrency J c w = (Inr (c \<notin> set favs), w1) \<and>
            fst (getFavoriteCurrencies J w1) = Inr favs1 \<and>
            favs1 = (if c \<in> set favs then filter (\<lambda>fav. fav \<noteq> c) favs else favs @ [c]) \<and>
            (distinct favs \<longrightarrow> distinct favs1) \<and> kept_in_order favs favs1)"
proof (intro conjI)
  from favorites_after_add [of w J favs c] assms
  obtain w1 where "addFavoriteCurrency J c w = (Inr (), w1)"
    and "fst (getFavoriteCurrencies J w1) = Inr (if c \<in> set favs then favs else favs @ [c])"
    and "c \<in> set favs \<longrightarrow> items w1 = items w \<and> writes w1 = writes w"
    by auto
  then show "\<exists>w1 favs1. addFavoriteCurrency J c w = (Inr (), w1) \<and>
            fst (getFavoriteCurrencies J w1) = Inr favs1 \<and>
            favs1 = (if c \<in> set favs then favs else favs @ [c]) \<and>
            (c \<in> set favs \<longrightarrow> items w1 = items w \<and> writes w1 = writes w) \<and>
            (distinct favs \<longrightarrow> distinct favs1) \<and> kept_in_order favs favs1"
    by (auto simp: kept_in_order_append kept_in_order_same)
next
  from favorites_after_remove [of w J favs c] assms
  obtain w1 where "removeFavoriteCurrency J c w = (Inr (), w1)"
    and "fst (getFavoriteCurrencies J w1) = Inr (filter (\<lambda>fav. fav \<noteq> c) favs)"
    by auto
  then show "\<exists>w1 favs1. removeFavoriteCurrency J c w = (Inr (), w1) \<and>
            fst (getFavoriteCurrencies J w1) = Inr favs1 \<and>
            favs1 = filter (\<lambda>fav. fav \<noteq> c) favs \<and>
            (distinct favs \<longrightarrow> distinct favs1) \<and> kept_in_order favs favs1"
    by (auto simp: kept_in_order_filter)
next
  have "strings_roundtrip J
          (if c \<in> set favs then filter (\<lambda>fav. fav \<noteq> c) favs else favs @ [c])"
    using assms(4,5) by simp
  from favorites_after_toggle [OF assms(1-3) this]
  obtain w1 where "toggleFavoriteCurrency J c w = (Inr (c \<notin> set favs), w1)"
    and "fst (getFavoriteCurrencies J w1) =
           Inr (if c \<in> set favs then filter (\<lambda>fav. fav \<noteq> c) favs else favs @ [c])"
    by auto
  then show "\<exists>w1 favs1. toggleFavoriteCurrency J c w = (Inr (c \<notin> set favs), w1) \<and>
            fst (getFavoriteCurrencies J w1) = Inr favs1 \<and>
            favs1 = (if c \<in> set favs then filter (\<lambda>fav. fav \<noteq> c) favs else favs @ [c]) \<and>
            (distinct favs \<longrightarrow> distinct favs1) \<and> kept_in_order favs favs1"
    by (auto simp: kept_in_order_filter kept_in_order_append)
qed

theorem favorites_unique_and_ordered_witness:
  "(\<forall>n. \<not> setItem_rejects usd_favorite_world n FAVORITES_KEY) \<and>
   (\<forall>n. \<not> getItem_rejects usd_favorite_world n FAVORITES_KEY) \<and>
   fst (getFavoriteCurrencies example_JSON usd_favorite_world) = Inr [''USD''] \<and>
   distinct [''USD''] \<and>
   strings_roundtrip example_JSON ([''USD''] @ [''EUR'']) \<and>
   strings_roundtrip example_JSON (filter (\<lambda>fav. fav \<noteq> ''EUR'') [''USD'']) \<and>
   (\<exists>w1. addFavoriteCurrency example_JSON ''EUR'' usd_favorite_world = (Inr (), w1) \<and>
      fst (getFavoriteCurrencies example_JSON w1) = Inr [''USD'', ''EUR'']) \<and>
   (\<exists>w1. removeFavoriteCurrency example_JSON ''EUR'' usd_favorite_world = (Inr (), w1) \<and>
      fst (getFavoriteCurrencies example_JSON w1) = Inr [''USD'']) \<and>
   (\<exists>w1. toggleFavoriteCurrency example_JSON ''EUR'' usd_favorite_world = (Inr True, w1) \<and>
      fst (getFavoriteCurrencies example_JSON w1) = Inr [''USD'', ''EUR'']) \<and>
   strings_roundtrip example_JSON ([''USD''] @ [''USD'']) \<and>
   strings_roundtrip example_JSON (filter (\<lambda>fav. fav \<noteq> ''USD'') [''USD'']) \<and>
   (\<exists>w1. addFavoriteCurrency example_JSON ''USD'' usd_favorite_world = (Inr (), w1) \<and>
      fst (getFavoriteCurrencies example_JSON w1) = Inr [''USD''] \<and>
      items w1 = items usd_favorite_world \<and> writes w1 = writes usd_favorite_world)"
proof -
  have r: "strings_roundtrip example_JSON ([''USD''] @ [''EUR''])"
    "strings_roundtrip example_JSON (filter (\<lambda>fav. fav \<noteq> ''EUR'') [''USD''])"
    "strings_roundtrip example_JSON ([''USD''] @ [''USD''])"
    "strings_roundtrip example_JSON (filter (\<lambda>fav. fav \<noteq> ''USD'') [''USD''])"
    by (simp_all add: strings_roundtrip_def example_defs)
  from favorites_unique_and_ordered
         [OF usd_favorite_world_available usd_favorite_world_favorites r(1,2)]
       favorites_unique_and_ordered
         [OF usd_favorite_world_available usd_favorite_world_favorites r(3,4)]
       usd_favorite_world_available usd_favorite_world_favorites r
  show ?thesis by auto
qed

text \<open>
  C5, as stated, fails when the code is a favorite at the start: the first call
  removes it and returns false, the second adds it again and returns true.
\<close>

theorem toggleFavoriteCurrency_twice_counterexample:
  "fst (getFavoriteCurrencies example_JSON usd_favorite_world) = Inr [''USD''] \<and>
   fst (toggleFavoriteCurrency example_JSON ''USD'' usd_favorite_world) = Inr False \<and>
   fst (toggleFavoriteCurrency example_JSON ''USD''
          (snd (toggleFavoriteCurrency example_JSON ''USD'' usd_favorite_world))) = Inr True"
proof -
  have r1: "strings_roundtrip example_JSON
      (if ''USD'' \<in> set [''USD''] then filter (\<lambda>fav. fav \<noteq> ''USD'') [''USD''] else [''USD''] @ [''USD''])"
    using example_roundtrips by simp
  from favorites_after_toggle [OF usd_favorite_world_available usd_favorite_world_favorites r1]
  obtain w1 where t1: "toggleFavoriteCurrency example_JSON ''USD'' usd_favorite_world = (Inr False, w1)"
    and f1: "fst (getFavoriteCurrencies example_JSON w1) = Inr []"
    and a1: "\<forall>n. \<not> setItem_rejects w1 n FAVORITES_KEY" "\<forall>n. \<not> getItem_rejects w1 n FAVORITES_KEY"
    by auto
  have r2: "strings_roundtrip example_JSON
      (if ''USD'' \<in> set [] then filter (\<lambda>fav. fav \<noteq> ''USD'') [] else [] @ [''USD''])"
    using example_roundtrips by simp
  from favorites_after_toggle [OF a1 f1 r2]
  obtain w2 where "toggleFavoriteCurrency example_JSON ''USD'' w1 = (Inr True, w2)"
    by auto
  with t1 usd_favorite_world_favorites show ?thesis by simp
qed

text \<open>
  C5, amended. On a store that accepts every read and write of the key, with \<open>favs\<close>
  the list read before the first call: each call of \<open>toggleFavoriteCurrency\<close> returns
  whether the code is a favorite afterwards. Two calls in sequence return true then
  false when the code was not a favorite at the start, and false then true when it was.
  After both calls the set of favorites is the set before the first call; the sequence
  is the same too when the code was not a favorite at the start (otherwise the code has
  moved to the end).
\<close>

theorem toggleFavoriteCurrency_twice:
  assumes "\<forall>n. \<not> setItem_rejects w n FAVORITES_KEY"
    and "\<forall>n. \<not> getItem_rejects w n FAVORITES_KEY"
    and "fst (getFavoriteCurrencies J w) = Inr favs"
    and "strings_roundtrip J
           (if c \<in> set favs then filter (\<lambda>fav. fav \<noteq> c) favs else favs @ [c])"
    and "strings_roundtrip J
           (if c \<in> set favs then filter (\<lambda>fav. fav \<noteq> c) favs @ [c] else favs)"
  shows "\<exists>w1 w2 favs1 favs2.
           toggleFavoriteCurrency J c w = (Inr (c \<notin> set favs), w1) \<and>
           fst (getFavoriteCurrencies J w1) = Inr favs1 \<and>
           (c \<in> set favs1) = (c \<notin> set favs) \<and>
           toggleFavoriteCurrency J c w1 = (Inr (c \<in> set favs), w2) \<and>
           fst (getFavoriteCurrencies J w2) = Inr favs2 \<and>
           (c \<in> set favs2) = (c \<in> set favs) \<and>
           set favs2 = set favs \<and>
           (c \<notin> set favs \<longrightarrow> favs2 = favs)"
proof -
  let ?favs1 = "if c \<in> set favs then filter (\<lambda>fav. fav \<noteq> c) favs else favs @ [c]"
  let ?favs2 = "if c \<in> set favs then filter (\<lambda>fav. fav \<noteq> c) favs @ [c] else favs"
  from favorites_after_toggle [OF assms(1-4)]
  obtain w1 where t1: "toggleFavoriteCurrency J c w = (Inr (c \<notin> set favs), w1)"
    and f1: "fst (getFavoriteCurrencies J w1) = Inr ?favs1"
    and a1: "\<forall>n. \<not> setItem_rejects w1 n FAVORITES_KEY"
            "\<forall>n. \<not> getItem_rejects w1 n FAVORITES_KEY"
    by auto
  have next_list:
    "(if c \<in> set ?favs1 then filter (\<lambda>fav. fav \<noteq> c) ?favs1 else ?favs1 @ [c]) = ?favs2"
    by (simp add: filter_other_codes)
  have "strings_roundtrip J
          (if c \<in> set ?favs1 then filter (\<lambda>fav. fav \<noteq> c) ?favs1 else ?favs1 @ [c])"
    using assms(5) by (simp only: next_list)
  from favorites_after_toggle [OF a1 f1 this]
  obtain w2 where t2: "toggleFavoriteCurrency J c w1 = (Inr (c \<notin> set ?favs1), w2)"
    and f2: "fst (getFavoriteCurrencies J w2) = Inr ?favs2"
    by (auto simp only: next_list)
  have m1: "(c \<in> set ?favs1) = (c \<notin> set favs)" by simp
  have m2: "(c \<in> set ?favs2) = (c \<in> set favs)" by simp
  have s2: "set ?favs2 = set favs" by auto
  have e2: "c \<notin> set favs \<longrightarrow> ?favs2 = favs" by simp
  from t2 m1 have t2': "toggleFavoriteCurrency J c w1 = (Inr (c \<in> set favs), w2)"
    by simp
  from t1 f1 m1 t2' f2 m2 s2 e2 show ?thesis by blast
qed

theorem toggleFavoriteCurrency_twice_witness:
  "(\<forall>n. \<not> setItem_rejects usd_favorite_world n FAVORITES_KEY) \<and>
   (\<forall>n. \<not> getItem_rejects usd_favorite_world n FAVORITES_KEY) \<and>
   fst (getFavoriteCurrencies example_JSON usd_favorite_world) = Inr [''USD''] \<and>
   strings_roundtrip example_JSON [''USD'', ''EUR''] \<and>
   strings_roundtrip example_JSON [''USD''] \<and>
   (\<exists>w1 w2. toggleFavoriteCurrency example_JSON ''EUR'' usd_favorite_world = (Inr True, w1) \<and>
      fst (getFavoriteCurrencies example_JSON w1) = Inr [''USD'', ''EUR''] \<and>
      toggleFavoriteCurrency example_JSON ''EUR'' w1 = (Inr False, w2) \<and>
      fst (getFavoriteCurrencies example_JSON w2) = Inr [''USD''])"
proof -
  have r1: "strings_roundtrip example_JSON
      (if ''EUR'' \<in> set [''USD''] then filter (\<lambda>fav. fav \<noteq> ''EUR'') [''USD''] else [''USD''] @ [''EUR''])"
    using example_roundtrips by simp
  have r2: "strings_roundtrip example_JSON
      (if ''EUR'' \<in> set [''USD''] then filter (\<lambda>fav. fav \<noteq> ''EUR'') [''USD''] @ [''EUR''] else [''USD''])"
    using example_roundtrips by simp
  from toggleFavoriteCurrency_twice
    [OF usd_favorite_world_available usd_favorite_world_favorites r1 r2]
  obtain w1 w2 favs1 favs2 where
    "toggleFavoriteCurrency example_JSON ''EUR'' usd_favorite_world = (Inr (''EUR'' \<notin> set [''USD'']), w1)"
    "fst (getFavoriteCurrencies example_JSON w1) = Inr favs1"
    "toggleFavoriteCurrency example_JSON ''EUR'' w1 = (Inr (''EUR'' \<in> set [''USD'']), w2)"
    "fst (getFavoriteCurrencies example_JSON w2) = Inr favs2"
    "''EUR'' \<notin> set [''USD''] \<longrightarrow> favs2 = [''USD'']"
    by blast
  moreover from favorites_after_toggle [OF usd_favorite_world_available usd_favorite_world_favorites r1]
  have "fst (getFavoriteCurrencies example_JSON
          (snd (toggleFavoriteCurrency example_JSON ''EUR'' usd_favorite_world))) = Inr [''USD'', ''EUR'']"
    by auto
  ultimately show ?thesis
    using usd_favorite_world_available usd_favorite_world_favorites example_roundtrips
    by auto
qed

end
